theory Spec2Isabelle
  imports Main "HOL-Library.AList"
begin

section \<open>Python strings and built-ins used by \<open>app/otel_config.py\<close>\<close>

text \<open>
  A Python \<open>str\<close> is modelled as a \<open>string\<close>, each \<open>char\<close> standing for one code
  point in the range U+0000 .. U+00FF. The functions below are the \<open>str\<close> methods and
  built-ins the module calls, restricted to that range.
\<close>

definition is_space :: "char \<Rightarrow> bool" where
  \<comment> \<open>\<open>str.isspace\<close> on one code point: the set \<open>str.strip()\<close> removes\<close>
  "is_space c = (of_char c \<in> {9, 10, 11, 12, 13, 28, 29, 30, 31, 32, 133, 160 :: nat})"

definition strip :: "string \<Rightarrow> string" where
  \<comment> \<open>\<open>s.strip()\<close>\<close>
  "strip s = rev (dropWhile is_space (rev (dropWhile is_space s)))"

definition char_lower :: "char \<Rightarrow> char" where
  "char_lower c =
     (let n = (of_char c :: nat)
      in if (65 \<le> n \<and> n \<le> 90) \<or> (192 \<le> n \<and> n \<le> 222 \<and> n \<noteq> 215)
         then char_of (n + 32) else c)"

definition lower :: "string \<Rightarrow> string" where
  \<comment> \<open>\<open>s.lower()\<close>\<close>
  "lower s = map char_lower s"

fun split :: "char \<Rightarrow> string \<Rightarrow> string list" where
  \<comment> \<open>\<open>s.split(sep)\<close> for a one-character separator: never an empty list\<close>
  "split sep [] = [[]]"
| "split sep (x # xs) =
     (if x = sep then [] # split sep xs
      else (case split sep xs of [] \<Rightarrow> [[x]] | y # ys \<Rightarrow> (x # y) # ys))"

definition split1 :: "char \<Rightarrow> string \<Rightarrow> string list" where
  \<comment> \<open>\<open>s.split(sep, 1)\<close>: cut at the first separator only\<close>
  "split1 sep s =
     (if sep \<in> set s then [takeWhile (\<lambda>c. c \<noteq> sep) s, tl (dropWhile (\<lambda>c. c \<noteq> sep) s)]
      else [s])"

text \<open>
  Exceptions. Every value of \<open>py_exception\<close> is an instance of Python's \<open>Exception\<close>;
  \<open>ValueError\<close> carries what raised it, \<open>LibraryError\<close> is any exception raised inside
  the OpenTelemetry packages, named by its text. What is raised outside that class
  (\<open>KeyboardInterrupt\<close>, \<open>SystemExit\<close>) is not modelled.
\<close>

datatype value_error =
    Not_enough_values nat nat
  | Too_many_values nat
  | Invalid_int_literal string
  | Invalid_float_literal string

datatype py_exception = ValueError value_error | IndexError | LibraryError string

definition unpack2 :: "'a list \<Rightarrow> py_exception + ('a \<times> 'a)" where
  \<comment> \<open>the assignment \<open>key, value = xs\<close>\<close>
  "unpack2 xs =
     (case xs of
        [a, b] \<Rightarrow> Inr (a, b)
      | _ # _ # _ # _ \<Rightarrow> Inl (ValueError (Too_many_values 2))
      | _ \<Rightarrow> Inl (ValueError (Not_enough_values 2 (length xs))))"

definition index :: "'a list \<Rightarrow> nat \<Rightarrow> py_exception + 'a" where
  \<comment> \<open>\<open>xs[i]\<close> for \<open>i \<ge> 0\<close>\<close>
  "index xs i = (if i < length xs then Inr (xs ! i) else Inl IndexError)"

subsection \<open>\<open>int(s)\<close> and \<open>float(s)\<close>\<close>

definition is_num_space :: "char \<Rightarrow> bool" where
  \<comment> \<open>the white space \<open>int\<close> and \<open>float\<close> skip around a literal\<close>
  "is_num_space c = (of_char c \<in> {9, 10, 11, 12, 13, 32, 133, 160 :: nat})"

definition num_strip :: "string \<Rightarrow> string" where
  "num_strip s = rev (dropWhile is_num_space (rev (dropWhile is_num_space s)))"

definition is_digit :: "char \<Rightarrow> bool" where
  "is_digit c = (48 \<le> (of_char c :: nat) \<and> (of_char c :: nat) \<le> 57)"

definition digit_val :: "char \<Rightarrow> nat" where
  "digit_val c = of_char c - 48"

fun underscores_ok :: "char \<Rightarrow> string \<Rightarrow> bool" where
  \<comment> \<open>an underscore stands only between two digits; the first argument is the
      character before\<close>
  "underscores_ok prev [] = (prev \<noteq> CHR ''_'')"
| "underscores_ok prev (c # cs) =
     (if c = CHR ''_'' then is_digit prev \<and> underscores_ok c cs
      else (prev = CHR ''_'' \<longrightarrow> is_digit c) \<and> underscores_ok c cs)"

definition drop_underscores :: "string \<Rightarrow> string option" where
  "drop_underscores s =
     (if underscores_ok (CHR 0x00) s then Some (filter (\<lambda>c. c \<noteq> CHR ''_'') s) else None)"

definition split_sign :: "string \<Rightarrow> bool \<times> string" where
  \<comment> \<open>an optional leading \<open>+\<close> or \<open>-\<close>; True for \<open>-\<close>\<close>
  "split_sign s =
     (case s of
        c # cs \<Rightarrow> if c = CHR ''-'' then (True, cs) else if c = CHR ''+'' then (False, cs)
                  else (False, s)
      | [] \<Rightarrow> (False, s))"

definition digits_val :: "string \<Rightarrow> nat" where
  "digits_val ds = foldl (\<lambda>n c. 10 * n + digit_val c) 0 ds"

definition int_max_str_digits :: nat where
  \<comment> \<open>the interpreter's default limit on the length of a decimal literal\<close>
  "int_max_str_digits = 4300"

definition py_int :: "string \<Rightarrow> py_exception + int" where
  \<comment> \<open>\<open>int(s)\<close>: base 10\<close>
  "py_int s =
     (case split_sign (num_strip s) of
        (neg, body) \<Rightarrow>
          (case drop_underscores body of
             None \<Rightarrow> Inl (ValueError (Invalid_int_literal s))
           | Some ds \<Rightarrow>
               if ds = [] \<or> \<not> list_all is_digit ds \<or> length ds > int_max_str_digits
               then Inl (ValueError (Invalid_int_literal s))
               else Inr (if neg then - int (digits_val ds) else int (digits_val ds))))"

text \<open>
  A float is kept as the decimal number its literal denotes (sign, digits, power of ten)
  or as an infinity or a NaN; the rounding to a binary64 value is not modelled, and nothing
  in the module reads the value.
\<close>

datatype pyfloat = Finite bool nat int | Infinite bool | NaN

definition parse_exponent :: "string \<Rightarrow> int option" where
  \<comment> \<open>what follows the mantissa: nothing, or \<open>e\<close>, an optional sign and digits\<close>
  "parse_exponent s =
     (case s of
        [] \<Rightarrow> Some 0
      | c # cs \<Rightarrow>
          if c = CHR ''e'' \<or> c = CHR ''E'' then
            (case split_sign cs of
               (neg, ds) \<Rightarrow>
                 if ds = [] \<or> \<not> list_all is_digit ds then None
                 else Some (if neg then - int (digits_val ds) else int (digits_val ds)))
          else None)"

definition parse_decimal :: "bool \<Rightarrow> string \<Rightarrow> pyfloat option" where
  \<comment> \<open>digits, an optional point, digits, an optional exponent; one mantissa digit at
      least\<close>
  "parse_decimal neg s =
     (let ip = takeWhile is_digit s;
          r1 = dropWhile is_digit s;
          pt = (r1 \<noteq> [] \<and> hd r1 = CHR ''.'');
          r2 = (if pt then tl r1 else r1);
          fp = (if pt then takeWhile is_digit r2 else []);
          r3 = (if pt then dropWhile is_digit r2 else r2)
      in if ip = [] \<and> fp = [] then None
         else (case parse_exponent r3 of
                 None \<Rightarrow> None
               | Some e \<Rightarrow> Some (Finite neg (digits_val (ip @ fp)) (e - int (length fp)))))"

definition py_float :: "string \<Rightarrow> py_exception + pyfloat" where
  \<comment> \<open>\<open>float(s)\<close>\<close>
  "py_float s =
     (case drop_underscores (num_strip s) of
        None \<Rightarrow> Inl (ValueError (Invalid_float_literal s))
      | Some t \<Rightarrow>
          (case split_sign t of
             (neg, body) \<Rightarrow>
               if lower body = ''inf'' \<or> lower body = ''infinity'' then Inr (Infinite neg)
               else if lower body = ''nan'' then Inr NaN
               else (case parse_decimal neg body of
                       None \<Rightarrow> Inl (ValueError (Invalid_float_literal s))
                     | Some f \<Rightarrow> Inr f)))"

section \<open>The configuration object\<close>

text \<open>
  A \<open>dict\<close> with string keys and values is an association list in insertion order with
  distinct keys; \<open>d[k] = v\<close> is \<open>AList.update k v d\<close> (an existing key keeps its place, a
  new key goes to the end) and \<open>d.get(k)\<close> is \<open>map_of d k\<close>.
\<close>

type_synonym dict = "(string \<times> string) list"

type_synonym environ = "string \<rightharpoonup> string"

definition getenv :: "environ \<Rightarrow> string \<Rightarrow> string \<Rightarrow> string" where
  \<comment> \<open>\<open>os.getenv(name, default)\<close>; \<open>os.getenv(name)\<close> is \<open>env name\<close>\<close>
  "getenv env name dflt = (case env name of None \<Rightarrow> dflt | Some v \<Rightarrow> v)"

datatype log_level = INFO | WARNING

datatype log_arg = Arg_str string | Arg_exc py_exception

datatype log_record = Log log_level string "log_arg list"

record OpenTelemetryConfig =
  service_name :: string
  service_version :: string
  environment :: string
  otel_enabled :: bool
  jaeger_endpoint :: "string option"
  otlp_endpoint :: "string option"
  console_exporter :: bool
  trace_sample_rate :: pyfloat
  instrument_flask :: bool
  instrument_sqlalchemy :: bool
  instrument_kafka :: bool
  instrument_psycopg2 :: bool
  custom_attributes :: dict

text \<open>
  What the module passes to the OpenTelemetry packages, and the calls it makes on them.
\<close>

datatype exporter = JaegerExporter string int | OTLPSpanExporter string | ConsoleSpanExporter

datatype propagator = TraceContextPropagator | B3MultiFormat | JaegerPropagator

datatype library = Flask | SQLAlchemy | Kafka | Psycopg2

datatype resource = Resource dict

datatype tracer_provider = TracerProvider resource

datatype span_processor = BatchSpanProcessor exporter

datatype textmap = CompositeHTTPPropagator "propagator list"

datatype tracer = Tracer string

datatype sdk_call =
    Set_tracer_provider tracer_provider
  | Construct_exporter exporter
  | Add_span_processor span_processor
  | Set_global_textmap textmap
  | Get_tracer string
  | Instrument library

text \<open>
  The process-wide state the module writes: the records sent to its logger, the calls made
  on the OpenTelemetry packages in the order they were made, and the module global
  \<open>_otel_config\<close>.
\<close>

record world =
  log :: "log_record list"
  calls :: "sdk_call list"
  otel_config :: "OpenTelemetryConfig option"

definition logger :: "log_level \<Rightarrow> string \<Rightarrow> log_arg list \<Rightarrow> world \<Rightarrow> world" where
  "logger lvl m as w = w\<lparr>log := log w @ [Log lvl m as]\<rparr>"

definition call :: "sdk_call \<Rightarrow> world \<Rightarrow> world" where
  "call c w = w\<lparr>calls := calls w @ [c]\<rparr>"

fun parse_loop :: "dict \<Rightarrow> string list \<Rightarrow> py_exception option \<times> dict" where
  \<comment> \<open>the \<open>for\<close> loop of \<open>_parse_custom_attributes\<close>: the exception that ended it, if any,
      and \<open>attributes\<close> as it was then\<close>
  "parse_loop attributes [] = (None, attributes)"
| "parse_loop attributes (attr # rest) =
     (case unpack2 (split1 (CHR ''='') (strip attr)) of
        Inl e \<Rightarrow> (Some e, attributes)
      | Inr (key, val) \<Rightarrow> parse_loop (AList.update key val attributes) rest)"

definition parse_custom_attributes :: "environ \<Rightarrow> world \<Rightarrow> dict \<times> world" where
  "parse_custom_attributes env w =
     (let attributes = [];
          custom_attrs = getenv env ''OTEL_CUSTOM_ATTRIBUTES'' ''''
      in if custom_attrs \<noteq> [] then
           (case parse_loop attributes (split (CHR '','') custom_attrs) of
              (None, attributes') \<Rightarrow> (attributes', w)
            | (Some e, attributes') \<Rightarrow>
                (attributes',
                 logger WARNING ''Failed to parse OTEL_CUSTOM_ATTRIBUTES: %s'' [Arg_exc e] w))
         else (attributes, w))"

definition env_flag :: "environ \<Rightarrow> string \<Rightarrow> string \<Rightarrow> bool" where
  \<comment> \<open>\<open>os.getenv(name, default).lower() == "true"\<close>\<close>
  "env_flag env name dflt = (lower (getenv env name dflt) = ''true'')"

definition OpenTelemetryConfig_init ::
  "environ \<Rightarrow> world \<Rightarrow> (py_exception + OpenTelemetryConfig) \<times> world" where
  \<comment> \<open>\<open>OpenTelemetryConfig.__init__\<close>\<close>
  "OpenTelemetryConfig_init env w =
     (case py_float (getenv env ''OTEL_TRACE_SAMPLE_RATE'' ''0.1'') of
        Inl e \<Rightarrow> (Inl e, w)
      | Inr rate \<Rightarrow>
          (case parse_custom_attributes env w of
             (attrs, w') \<Rightarrow>
               (Inr \<lparr> service_name = getenv env ''OTEL_SERVICE_NAME'' ''insights-host-inventory'',
                      service_version = getenv env ''OTEL_SERVICE_VERSION'' ''1.0.0'',
                      environment = getenv env ''OTEL_ENVIRONMENT'' ''development'',
                      otel_enabled = env_flag env ''OTEL_ENABLED'' ''false'',
                      jaeger_endpoint = env ''OTEL_JAEGER_ENDPOINT'',
                      otlp_endpoint = env ''OTEL_OTLP_ENDPOINT'',
                      console_exporter = env_flag env ''OTEL_CONSOLE_EXPORTER'' ''false'',
                      trace_sample_rate = rate,
                      instrument_flask = env_flag env ''OTEL_INSTRUMENT_FLASK'' ''true'',
                      instrument_sqlalchemy = env_flag env ''OTEL_INSTRUMENT_SQLALCHEMY'' ''true'',
                      instrument_kafka = env_flag env ''OTEL_INSTRUMENT_KAFKA'' ''true'',
                      instrument_psycopg2 = env_flag env ''OTEL_INSTRUMENT_PSYCOPG2'' ''true'',
                      custom_attributes = attrs \<rparr>, w')))"

definition get_otel_config ::
  "environ \<Rightarrow> world \<Rightarrow> (py_exception + OpenTelemetryConfig) \<times> world" where
  "get_otel_config env w =
     (case otel_config w of
        None \<Rightarrow>
          (case OpenTelemetryConfig_init env w of
             (Inl e, w') \<Rightarrow> (Inl e, w')
           | (Inr c, w') \<Rightarrow> (Inr c, w'\<lparr>otel_config := Some c\<rparr>))
      | Some c \<Rightarrow> (Inr c, w))"

section \<open>Tracing set-up\<close>

text \<open>
  The OpenTelemetry packages are outside the module. Two of their behaviours decide what
  the module does next and are parameters: whether constructing a given exporter raises,
  and whether instrumenting a given library raises. Every other call on them returns.
\<close>

record sdk =
  exporter_raises :: "exporter \<Rightarrow> py_exception option"
  instrument_raises :: "library \<Rightarrow> py_exception option"

definition this_module :: string where
  \<comment> \<open>\<open>__name__\<close>\<close>
  "this_module = ''app.otel_config''"

fun dict_update :: "dict \<Rightarrow> (string \<times> string) list \<Rightarrow> dict" where
  \<comment> \<open>the items of a dict display or of \<open>**d\<close>, stored from left to right\<close>
  "dict_update d [] = d"
| "dict_update d ((k, v) # items) = dict_update (AList.update k v d) items"

definition resource_attributes :: "OpenTelemetryConfig \<Rightarrow> dict" where
  \<comment> \<open>the dict display passed to \<open>Resource.create\<close>\<close>
  "resource_attributes self =
     dict_update []
       ([(''service.name'', service_name self),
         (''service.version'', service_version self),
         (''deployment.environment'', environment self)] @ custom_attributes self)"

definition construct :: "sdk \<Rightarrow> exporter \<Rightarrow> world \<Rightarrow> (py_exception + exporter) \<times> world" where
  \<comment> \<open>a call of an exporter's constructor, its arguments evaluated already\<close>
  "construct ext e w =
     (case exporter_raises ext e of
        None \<Rightarrow> (Inr e, call (Construct_exporter e) w)
      | Some x \<Rightarrow> (Inl x, call (Construct_exporter e) w))"

definition agent_host_name :: "string \<Rightarrow> py_exception + string" where
  "agent_host_name endpoint =
     (if CHR '':'' \<in> set endpoint then index (split (CHR '':'') endpoint) 0 else Inr endpoint)"

definition agent_port :: "string \<Rightarrow> py_exception + int" where
  "agent_port endpoint =
     (if CHR '':'' \<in> set endpoint then
        (case index (split (CHR '':'') endpoint) 1 of Inl e \<Rightarrow> Inl e | Inr p \<Rightarrow> py_int p)
      else Inr 14268)"

definition configure_jaeger ::
  "sdk \<Rightarrow> OpenTelemetryConfig \<Rightarrow> exporter list \<Rightarrow> world \<Rightarrow> (py_exception + exporter list) \<times> world" where
  \<comment> \<open>\<open>if self.jaeger_endpoint: ...\<close>\<close>
  "configure_jaeger ext self exporters w =
     (case jaeger_endpoint self of
        None \<Rightarrow> (Inr exporters, w)
      | Some endpoint \<Rightarrow>
          if endpoint = [] then (Inr exporters, w)
          else (case agent_host_name endpoint of
                  Inl e \<Rightarrow> (Inl e, w)
                | Inr host \<Rightarrow>
                    (case agent_port endpoint of
                       Inl e \<Rightarrow> (Inl e, w)
                     | Inr port \<Rightarrow>
                         (case construct ext (JaegerExporter host port) w of
                            (Inl e, w') \<Rightarrow> (Inl e, w')
                          | (Inr jaeger_exporter, w') \<Rightarrow>
                              (Inr (exporters @ [jaeger_exporter]),
                               logger INFO ''Configured Jaeger exporter: %s''
                                 [Arg_str endpoint] w')))))"

definition configure_otlp ::
  "sdk \<Rightarrow> OpenTelemetryConfig \<Rightarrow> exporter list \<Rightarrow> world \<Rightarrow> (py_exception + exporter list) \<times> world" where
  \<comment> \<open>\<open>if self.otlp_endpoint: ...\<close>\<close>
  "configure_otlp ext self exporters w =
     (case otlp_endpoint self of
        None \<Rightarrow> (Inr exporters, w)
      | Some endpoint \<Rightarrow>
          if endpoint = [] then (Inr exporters, w)
          else (case construct ext (OTLPSpanExporter endpoint) w of
                  (Inl e, w') \<Rightarrow> (Inl e, w')
                | (Inr otlp_exporter, w') \<Rightarrow>
                    (Inr (exporters @ [otlp_exporter]),
                     logger INFO ''Configured OTLP exporter: %s'' [Arg_str endpoint] w')))"

definition configure_console ::
  "sdk \<Rightarrow> OpenTelemetryConfig \<Rightarrow> exporter list \<Rightarrow> world \<Rightarrow> (py_exception + exporter list) \<times> world" where
  \<comment> \<open>\<open>if self.console_exporter: ...\<close>\<close>
  "configure_console ext self exporters w =
     (if console_exporter self then
        (case construct ext ConsoleSpanExporter w of
           (Inl e, w') \<Rightarrow> (Inl e, w')
         | (Inr console, w') \<Rightarrow>
             (Inr (exporters @ [console]), logger INFO ''Configured console exporter'' [] w'))
      else (Inr exporters, w))"

definition configure_exporters ::
  "sdk \<Rightarrow> OpenTelemetryConfig \<Rightarrow> world \<Rightarrow> (py_exception + exporter list) \<times> world" where
  \<comment> \<open>\<open>exporters = []\<close> and the three \<open>if\<close> blocks, in the order of the source\<close>
  "configure_exporters ext self w =
     (case configure_jaeger ext self [] w of
        (Inl e, w1) \<Rightarrow> (Inl e, w1)
      | (Inr exporters1, w1) \<Rightarrow>
          (case configure_otlp ext self exporters1 w1 of
             (Inl e, w2) \<Rightarrow> (Inl e, w2)
           | (Inr exporters2, w2) \<Rightarrow> configure_console ext self exporters2 w2))"

fun add_span_processors :: "exporter list \<Rightarrow> world \<Rightarrow> world" where
  \<comment> \<open>\<open>for exporter in exporters: tracer_provider.add_span_processor(BatchSpanProcessor(exporter))\<close>\<close>
  "add_span_processors [] w = w"
| "add_span_processors (e # es) w =
     add_span_processors es (call (Add_span_processor (BatchSpanProcessor e)) w)"

definition setup_tracing ::
  "sdk \<Rightarrow> OpenTelemetryConfig \<Rightarrow> world \<Rightarrow> (py_exception + tracer option) \<times> world" where
  "setup_tracing ext self w =
     (if \<not> otel_enabled self then (Inr None, logger INFO ''OpenTelemetry is disabled'' [] w)
      else
        let resource = Resource (resource_attributes self);
            tracer_provider = TracerProvider resource;
            w1 = call (Set_tracer_provider tracer_provider) w
        in (case configure_exporters ext self w1 of
              (Inl e, w2) \<Rightarrow> (Inl e, w2)
            | (Inr exporters, w2) \<Rightarrow>
                let w3 = (if exporters = []
                          then logger WARNING ''No OpenTelemetry exporters configured'' [] w2
                          else w2);
                    w4 = add_span_processors exporters w3;
                    propagators = [TraceContextPropagator, B3MultiFormat, JaegerPropagator];
                    w5 = call (Set_global_textmap (CompositeHTTPPropagator propagators)) w4;
                    w6 = call (Get_tracer this_module) w5;
                    w7 = logger INFO ''OpenTelemetry tracing initialized for service: %s''
                           [Arg_str (service_name self)] w6
                in (Inr (Some (Tracer this_module)), w7)))"

definition instrument_block ::
  "sdk \<Rightarrow> bool \<Rightarrow> library \<Rightarrow> string \<Rightarrow> string \<Rightarrow> world \<Rightarrow> world" where
  \<comment> \<open>one \<open>try: if flag: X().instrument(); logger.info(..)  except Exception as e:
      logger.warning(.., e)\<close> block\<close>
  "instrument_block ext flag lib enabled_msg failed_msg w =
     (if flag then
        (case instrument_raises ext lib of
           None \<Rightarrow> logger INFO enabled_msg [] (call (Instrument lib) w)
         | Some e \<Rightarrow> logger WARNING failed_msg [Arg_exc e] (call (Instrument lib) w))
      else w)"

definition instrument_libraries :: "sdk \<Rightarrow> OpenTelemetryConfig \<Rightarrow> world \<Rightarrow> world" where
  "instrument_libraries ext self w =
     (if \<not> otel_enabled self then w
      else
        let w1 = instrument_block ext (instrument_flask self) Flask
                   ''Flask instrumentation enabled'' ''Failed to instrument Flask: %s'' w;
            w2 = instrument_block ext (instrument_sqlalchemy self) SQLAlchemy
                   ''SQLAlchemy instrumentation enabled''
                   ''Failed to instrument SQLAlchemy: %s'' w1;
            w3 = instrument_block ext (instrument_kafka self) Kafka
                   ''Kafka instrumentation enabled'' ''Failed to instrument Kafka: %s'' w2;
            w4 = instrument_block ext (instrument_psycopg2 self) Psycopg2
                   ''Psycopg2 instrumentation enabled''
                   ''Failed to instrument Psycopg2: %s'' w3
        in w4)"

definition setup_opentelemetry ::
  "sdk \<Rightarrow> environ \<Rightarrow> world \<Rightarrow> (py_exception + tracer option) \<times> world" where
  "setup_opentelemetry ext env w =
     (case get_otel_config env w of
        (Inl e, w1) \<Rightarrow> (Inl e, w1)
      | (Inr config, w1) \<Rightarrow>
          (case setup_tracing ext config w1 of
             (Inl e, w2) \<Rightarrow> (Inl e, w2)
           | (Inr tracer, w2) \<Rightarrow> (Inr tracer, instrument_libraries ext config w2)))"

definition get_tracer :: "string \<Rightarrow> world \<Rightarrow> tracer \<times> world" where
  \<comment> \<open>\<open>return trace.get_tracer(name)\<close>\<close>
  "get_tracer name w = (Tracer name, call (Get_tracer name) w)"

section \<open>Notions used to state the properties\<close>

definition has_eq :: "string \<Rightarrow> bool" where
  \<comment> \<open>the entry contains an \<open>=\<close>\<close>
  "has_eq attr = (CHR ''='' \<in> set attr)"

definition entry_kv :: "string \<Rightarrow> string \<times> string" where
  \<comment> \<open>an entry cut at its first \<open>=\<close>: the text before it and all the text after it\<close>
  "entry_kv attr =
     (takeWhile (\<lambda>c. c \<noteq> CHR ''='') (strip attr),
      tl (dropWhile (\<lambda>c. c \<noteq> CHR ''='') (strip attr)))"

definition last_value :: "string \<Rightarrow> (string \<times> string) list \<Rightarrow> string option" where
  \<comment> \<open>the value of the last pair with the given key\<close>
  "last_value k kvs =
     (case filter (\<lambda>p. fst p = k) kvs of [] \<Rightarrow> None | p # ps \<Rightarrow> Some (snd (last (p # ps))))"

definition fixed_fields :: "OpenTelemetryConfig \<Rightarrow> dict" where
  "fixed_fields self =
     [(''service.name'', service_name self),
      (''service.version'', service_version self),
      (''deployment.environment'', environment self)]"

fun provider_resources :: "sdk_call list \<Rightarrow> dict list" where
  \<comment> \<open>the resource attributes of the tracer providers installed, in order\<close>
  "provider_resources [] = []"
| "provider_resources (Set_tracer_provider (TracerProvider (Resource d)) # cs) =
     d # provider_resources cs"
| "provider_resources (_ # cs) = provider_resources cs"

fun attached_exporters :: "sdk_call list \<Rightarrow> exporter list" where
  \<comment> \<open>the exporters attached to the provider through a span processor, in order\<close>
  "attached_exporters [] = []"
| "attached_exporters (Add_span_processor (BatchSpanProcessor e) # cs) =
     e # attached_exporters cs"
| "attached_exporters (_ # cs) = attached_exporters cs"

fun constructed_exporters :: "sdk_call list \<Rightarrow> exporter list" where
  \<comment> \<open>the exporters whose constructor was called, in order\<close>
  "constructed_exporters [] = []"
| "constructed_exporters (Construct_exporter e # cs) = e # constructed_exporters cs"
| "constructed_exporters (_ # cs) = constructed_exporters cs"

fun installed_propagators :: "sdk_call list \<Rightarrow> propagator list list" where
  \<comment> \<open>the format lists of the composite propagators installed, in order\<close>
  "installed_propagators [] = []"
| "installed_propagators (Set_global_textmap (CompositeHTTPPropagator ps) # cs) =
     ps # installed_propagators cs"
| "installed_propagators (_ # cs) = installed_propagators cs"

fun instrumented :: "sdk_call list \<Rightarrow> library list" where
  \<comment> \<open>the libraries whose instrumentation was attempted, in order\<close>
  "instrumented [] = []"
| "instrumented (Instrument l # cs) = l # instrumented cs"
| "instrumented (_ # cs) = instrumented cs"

definition jaeger_request :: "string \<Rightarrow> py_exception + exporter" where
  \<comment> \<open>the Jaeger exporter asked for by an endpoint, or the error its arguments raise\<close>
  "jaeger_request endpoint =
     (case agent_host_name endpoint of
        Inl e \<Rightarrow> Inl e
      | Inr host \<Rightarrow>
          (case agent_port endpoint of
             Inl e \<Rightarrow> Inl e
           | Inr port \<Rightarrow> Inr (JaegerExporter host port)))"

definition jaeger_requests :: "OpenTelemetryConfig \<Rightarrow> (py_exception + exporter) list" where
  "jaeger_requests self =
     (case jaeger_endpoint self of
        None \<Rightarrow> []
      | Some endpoint \<Rightarrow> if endpoint = [] then [] else [jaeger_request endpoint])"

definition otlp_requests :: "OpenTelemetryConfig \<Rightarrow> (py_exception + exporter) list" where
  "otlp_requests self =
     (case otlp_endpoint self of
        None \<Rightarrow> []
      | Some endpoint \<Rightarrow> if endpoint = [] then [] else [Inr (OTLPSpanExporter endpoint)])"

definition console_requests :: "OpenTelemetryConfig \<Rightarrow> (py_exception + exporter) list" where
  "console_requests self = (if console_exporter self then [Inr ConsoleSpanExporter] else [])"

definition exporter_requests :: "OpenTelemetryConfig \<Rightarrow> (py_exception + exporter) list" where
  \<comment> \<open>the exporters a configuration asks for, in the order Jaeger, OTLP, console\<close>
  "exporter_requests self = jaeger_requests self @ otlp_requests self @ console_requests self"

definition request_raises :: "sdk \<Rightarrow> py_exception + exporter \<Rightarrow> py_exception option" where
  \<comment> \<open>what constructing a requested exporter raises, if anything\<close>
  "request_raises ext r = (case r of Inl e \<Rightarrow> Some e | Inr x \<Rightarrow> exporter_raises ext x)"

definition first_failure :: "sdk \<Rightarrow> (py_exception + exporter) list \<Rightarrow> py_exception option" where
  \<comment> \<open>the exception of the first request whose construction raises\<close>
  "first_failure ext rs =
     (case dropWhile (\<lambda>r. request_raises ext r = None) rs of
        [] \<Rightarrow> None
      | r # _ \<Rightarrow> request_raises ext r)"

fun rights :: "('e + 'a) list \<Rightarrow> 'a list" where
  "rights [] = []"
| "rights (Inl _ # rs) = rights rs"
| "rights (Inr x # rs) = x # rights rs"

definition up_to_failure :: "sdk \<Rightarrow> (py_exception + exporter) list \<Rightarrow> exporter list" where
  \<comment> \<open>the exporters of the requests up to and including the first that raises\<close>
  "up_to_failure ext rs =
     rights (take (Suc (length (takeWhile (\<lambda>r. request_raises ext r = None) rs))) rs)"

definition flagged :: "OpenTelemetryConfig \<Rightarrow> library \<Rightarrow> bool" where
  "flagged self l =
     (case l of
        Flask \<Rightarrow> instrument_flask self
      | SQLAlchemy \<Rightarrow> instrument_sqlalchemy self
      | Kafka \<Rightarrow> instrument_kafka self
      | Psycopg2 \<Rightarrow> instrument_psycopg2 self)"

definition library_name :: "library \<Rightarrow> string" where
  "library_name l =
     (case l of
        Flask \<Rightarrow> ''Flask''
      | SQLAlchemy \<Rightarrow> ''SQLAlchemy''
      | Kafka \<Rightarrow> ''Kafka''
      | Psycopg2 \<Rightarrow> ''Psycopg2'')"

definition instrument_record :: "sdk \<Rightarrow> library \<Rightarrow> log_record" where
  \<comment> \<open>the log record of one attempt: success, or a warning with the library's name and
      the exception\<close>
  "instrument_record ext l =
     (case instrument_raises ext l of
        None \<Rightarrow> Log INFO (library_name l @ '' instrumentation enabled'') []
      | Some e \<Rightarrow> Log WARNING (''Failed to instrument '' @ library_name l @ '': %s'') [Arg_exc e])"

fun get_otel_config_seq ::
  "environ list \<Rightarrow> world \<Rightarrow> (py_exception + OpenTelemetryConfig) list \<times> world" where
  \<comment> \<open>successive calls of \<open>get_otel_config\<close>, each under its own environment\<close>
  "get_otel_config_seq [] w = ([], w)"
| "get_otel_config_seq (env # envs) w =
     (case get_otel_config env w of
        (r, w') \<Rightarrow> (case get_otel_config_seq envs w' of (rs, w'') \<Rightarrow> (r # rs, w'')))"

subsection \<open>Concrete inputs\<close>

definition initial_world :: world where
  \<comment> \<open>the state after import: nothing logged, nothing called, \<open>_otel_config = None\<close>\<close>
  "initial_world = \<lparr>log = [], calls = [], otel_config = None\<rparr>"

definition sdk_ok :: sdk where
  \<comment> \<open>packages in which nothing raises\<close>
  "sdk_ok = \<lparr>exporter_raises = (\<lambda>_. None), instrument_raises = (\<lambda>_. None)\<rparr>"

definition sdk_no_kafka :: sdk where
  \<comment> \<open>packages in which instrumenting Kafka raises\<close>
  "sdk_no_kafka =
     \<lparr>exporter_raises = (\<lambda>_. None),
      instrument_raises = (\<lambda>l. if l = Kafka then Some (LibraryError ''No module named kafka'')
                                else None)\<rparr>"

definition sdk_no_otlp :: sdk where
  \<comment> \<open>packages in which constructing an OTLP exporter raises\<close>
  "sdk_no_otlp =
     \<lparr>exporter_raises = (\<lambda>x. case x of OTLPSpanExporter _ \<Rightarrow> Some (LibraryError ''bad endpoint'')
                                | _ \<Rightarrow> None),
      instrument_raises = (\<lambda>_. None)\<rparr>"

definition default_config :: OpenTelemetryConfig where
  \<comment> \<open>the configuration of an empty environment\<close>
  "default_config =
     \<lparr> service_name = ''insights-host-inventory'', service_version = ''1.0.0'',
       environment = ''development'', otel_enabled = False, jaeger_endpoint = None,
       otlp_endpoint = None, console_exporter = False,
       trace_sample_rate = Finite False 1 (- 1), instrument_flask = True,
       instrument_sqlalchemy = True, instrument_kafka = True, instrument_psycopg2 = True,
       custom_attributes = [] \<rparr>"

definition enabled_config :: OpenTelemetryConfig where
  "enabled_config = default_config\<lparr>otel_enabled := True\<rparr>"

definition env_of :: "(string \<times> string) list \<Rightarrow> environ" where
  \<comment> \<open>an environment given by its variables\<close>
  "env_of vars = map_of vars"

section \<open>Strings and dicts\<close>

lemma mem_dropWhile: "\<not> P x \<Longrightarrow> x \<in> set (dropWhile P xs) \<longleftrightarrow> x \<in> set xs"
  by (induction xs) auto

lemma eq_not_space: "\<not> is_space (CHR ''='')"
  by (simp add: is_space_def)

lemma has_eq_strip: "has_eq (strip a) = has_eq a"
  by (simp add: has_eq_def strip_def mem_dropWhile eq_not_space)

lemma unpack2_split1:
  "unpack2 (split1 (CHR ''='') (strip a)) =
     (if has_eq a then Inr (entry_kv a) else Inl (ValueError (Not_enough_values 2 1)))"
  using has_eq_strip [of a]
  by (simp add: unpack2_def split1_def entry_kv_def has_eq_def)

lemma parse_loop_eq:
  "parse_loop d as =
     (if list_all has_eq as then None else Some (ValueError (Not_enough_values 2 1)),
      dict_update d (map entry_kv (takeWhile has_eq as)))"
proof (induction as arbitrary: d)
  case Nil
  show ?case by simp
next
  case (Cons a as)
  show ?case
  proof (cases "has_eq a")
    case True
    then show ?thesis
      by (cases "entry_kv a") (simp add: unpack2_split1 Cons.IH)
  next
    case False
    then show ?thesis by (simp add: unpack2_split1)
  qed
qed

lemma last_value_Nil: "last_value k [] = None"
  by (simp add: last_value_def)

lemma last_value_Cons:
  "last_value k (p # kvs) =
     (case last_value k kvs of Some v \<Rightarrow> Some v
      | None \<Rightarrow> if fst p = k then Some (snd p) else None)"
  by (simp add: last_value_def split: list.splits)

lemma map_of_dict_update:
  "map_of (dict_update d kvs) k =
     (case last_value k kvs of Some v \<Rightarrow> Some v | None \<Rightarrow> map_of d k)"
proof (induction kvs arbitrary: d)
  case Nil
  show ?case by (simp add: last_value_Nil)
next
  case (Cons p kvs)
  obtain a b where p: "p = (a, b)" by (cases p)
  show ?case
    by (simp add: p Cons.IH last_value_Cons update_conv' split: option.splits)
qed

lemma distinct_dict_update:
  "distinct (map fst d) \<Longrightarrow> distinct (map fst (dict_update d kvs))"
  by (induction kvs arbitrary: d) (auto simp: distinct_update)

lemma entry_kv_join:
  assumes "has_eq a"
  shows "fst (entry_kv a) @ ''='' @ snd (entry_kv a) = strip a"
    and "CHR ''='' \<notin> set (fst (entry_kv a))"
proof -
  let ?s = "strip a"
  have "dropWhile (\<lambda>c. c \<noteq> CHR ''='') ?s \<noteq> []"
    using assms has_eq_strip [of a] by (simp add: has_eq_def)
  moreover have "dropWhile (\<lambda>c. c \<noteq> CHR ''='') ?s \<noteq> [] \<Longrightarrow> hd (dropWhile (\<lambda>c. c \<noteq> CHR ''='') ?s) = CHR ''=''"
    using hd_dropWhile [of "\<lambda>c. c \<noteq> CHR ''=''" ?s] by simp
  ultimately have "dropWhile (\<lambda>c. c \<noteq> CHR ''='') ?s = CHR ''='' # tl (dropWhile (\<lambda>c. c \<noteq> CHR ''='') ?s)"
    by (cases "dropWhile (\<lambda>c. c \<noteq> CHR ''='') ?s") auto
  then have "takeWhile (\<lambda>c. c \<noteq> CHR ''='') ?s @ CHR ''='' # tl (dropWhile (\<lambda>c. c \<noteq> CHR ''='') ?s) = ?s"
    using takeWhile_dropWhile_id [of "\<lambda>c. c \<noteq> CHR ''=''" ?s] by simp
  then show "fst (entry_kv a) @ ''='' @ snd (entry_kv a) = strip a"
    by (simp add: entry_kv_def)
  show "CHR ''='' \<notin> set (fst (entry_kv a))"
    by (auto simp: entry_kv_def dest: set_takeWhileD)
qed

lemma split_nonempty: "split c s \<noteq> []"
  by (induction s) (auto split: list.splits)

section \<open>Parsing the custom attributes\<close>

lemma dict_update_eq_Nil: "dict_update d kvs = [] \<longleftrightarrow> d = [] \<and> kvs = []"
proof (induction kvs arbitrary: d)
  case Nil
  show ?case by simp
next
  case (Cons p kvs)
  obtain a b where p: "p = (a, b)" by (cases p)
  have "AList.update a b d \<noteq> []" by (cases d) auto
  then show ?case by (simp add: p Cons.IH)
qed

lemma parse_custom_attributes_eq:
  assumes "getenv env ''OTEL_CUSTOM_ATTRIBUTES'' '''' = s" and "s \<noteq> []"
  shows "parse_custom_attributes env w =
           (dict_update [] (map entry_kv (takeWhile has_eq (split (CHR '','') s))),
            if list_all has_eq (split (CHR '','') s) then w
            else logger WARNING ''Failed to parse OTEL_CUSTOM_ATTRIBUTES: %s''
                   [Arg_exc (ValueError (Not_enough_values 2 1))] w)"
  using assms by (simp add: parse_custom_attributes_def parse_loop_eq)

lemma parse_custom_attributes_empty:
  "getenv env ''OTEL_CUSTOM_ATTRIBUTES'' '''' = [] \<Longrightarrow> parse_custom_attributes env w = ([], w)"
  by (simp add: parse_custom_attributes_def)

text \<open>
  Claim C1, as the code has it. When the custom-attribute string is not empty and one of its
  comma-separated entries has no \<open>=\<close>, the parse keeps the entries before the first
  such entry and drops that entry and every later one; it logs one warning and raises
  nothing, so construction goes on. The result is empty only when the first entry is the
  malformed one.
\<close>

theorem custom_attributes_malformed_keeps_prefix:
  assumes "getenv env ''OTEL_CUSTOM_ATTRIBUTES'' '''' = s"
    and "s \<noteq> []"
    and "\<exists>a \<in> set (split (CHR '','') s). \<not> has_eq a"
  shows "parse_custom_attributes env w =
           (dict_update [] (map entry_kv (takeWhile has_eq (split (CHR '','') s))),
            logger WARNING ''Failed to parse OTEL_CUSTOM_ATTRIBUTES: %s''
              [Arg_exc (ValueError (Not_enough_values 2 1))] w)
         \<and> (fst (parse_custom_attributes env w) = [] \<longleftrightarrow> \<not> has_eq (hd (split (CHR '','') s)))
         \<and> (\<forall>rate. py_float (getenv env ''OTEL_TRACE_SAMPLE_RATE'' ''0.1'') = Inr rate \<longrightarrow>
              (\<exists>c. fst (OpenTelemetryConfig_init env w) = Inr c
                 \<and> custom_attributes c = fst (parse_custom_attributes env w)))"
proof -
  have bad: "\<not> list_all has_eq (split (CHR '','') s)"
    using assms(3) by (simp add: list_all_iff)
  have eq: "parse_custom_attributes env w =
           (dict_update [] (map entry_kv (takeWhile has_eq (split (CHR '','') s))),
            logger WARNING ''Failed to parse OTEL_CUSTOM_ATTRIBUTES: %s''
              [Arg_exc (ValueError (Not_enough_values 2 1))] w)"
    using parse_custom_attributes_eq [OF assms(1,2)] bad by simp
  have empty: "fst (parse_custom_attributes env w) = [] \<longleftrightarrow> \<not> has_eq (hd (split (CHR '','') s))"
    by (simp add: eq dict_update_eq_Nil takeWhile_eq_Nil_iff split_nonempty)
  have init: "\<forall>rate. py_float (getenv env ''OTEL_TRACE_SAMPLE_RATE'' ''0.1'') = Inr rate \<longrightarrow>
              (\<exists>c. fst (OpenTelemetryConfig_init env w) = Inr c
                 \<and> custom_attributes c = fst (parse_custom_attributes env w))"
    by (simp add: OpenTelemetryConfig_init_def split: prod.splits)
  from eq empty init show ?thesis by blast
qed

theorem custom_attributes_malformed_keeps_prefix_witness:
  "(\<exists>a \<in> set (split (CHR '','') ''a=1,b=2,c,d=4''). \<not> has_eq a)
   \<and> parse_custom_attributes (env_of [(''OTEL_CUSTOM_ATTRIBUTES'', ''a=1,b=2,c,d=4'')]) initial_world =
       ([(''a'', ''1''), (''b'', ''2'')],
        logger WARNING ''Failed to parse OTEL_CUSTOM_ATTRIBUTES: %s''
          [Arg_exc (ValueError (Not_enough_values 2 1))] initial_world)"
proof -
  let ?s = "''a=1,b=2,c,d=4''"
  let ?env = "env_of [(''OTEL_CUSTOM_ATTRIBUTES'', ?s)]"
  have h1: "getenv ?env ''OTEL_CUSTOM_ATTRIBUTES'' '''' = ?s" by code_simp
  have h2: "?s \<noteq> []" by simp
  have h3: "\<exists>a \<in> set (split (CHR '','') ?s). \<not> has_eq a" by code_simp
  have e: "dict_update [] (map entry_kv (takeWhile has_eq (split (CHR '','') ?s))) =
             [(''a'', ''1''), (''b'', ''2'')]" by code_simp
  from custom_attributes_malformed_keeps_prefix [OF h1 h2 h3, of initial_world] e h3
  show ?thesis by simp
qed

text \<open>
  The parse is not all-or-nothing: on \<open>a=1,b\<close> the entry \<open>a=1\<close> is kept.
\<close>

theorem custom_attributes_partial_counterexample:
  "''b'' \<in> set (split (CHR '','') ''a=1,b'') \<and> \<not> has_eq ''b''
   \<and> fst (parse_custom_attributes (env_of [(''OTEL_CUSTOM_ATTRIBUTES'', ''a=1,b'')]) initial_world)
       = [(''a'', ''1'')]"
  by code_simp

text \<open>
  Claim C8. When every entry of the custom-attribute string has an \<open>=\<close>, nothing is
  logged; each entry is cut at its first \<open>=\<close> only, the value being all the text after
  it; and a key's value in the resulting dict is that of the last entry with this key.
\<close>

theorem custom_attributes_first_eq_last_wins:
  assumes "getenv env ''OTEL_CUSTOM_ATTRIBUTES'' '''' = s"
    and "\<forall>a \<in> set (split (CHR '','') s). has_eq a"
  shows "snd (parse_custom_attributes env w) = w
         \<and> (\<forall>k. map_of (fst (parse_custom_attributes env w)) k
                  = last_value k (map entry_kv (split (CHR '','') s)))
         \<and> distinct (map fst (fst (parse_custom_attributes env w)))
         \<and> (\<forall>a \<in> set (split (CHR '','') s).
               fst (entry_kv a) @ ''='' @ snd (entry_kv a) = strip a
               \<and> CHR ''='' \<notin> set (fst (entry_kv a)))"
proof -
  have ne: "s \<noteq> []"
  proof
    assume "s = []"
    with assms(2) show False by (simp add: has_eq_def)
  qed
  have all: "list_all has_eq (split (CHR '','') s)"
    using assms(2) by (simp add: list_all_iff)
  have tw: "takeWhile has_eq (split (CHR '','') s) = split (CHR '','') s"
    using assms(2) by (simp add: takeWhile_eq_all_conv)
  have "parse_custom_attributes env w =
      (dict_update [] (map entry_kv (takeWhile has_eq (split (CHR '','') s))), w)"
    using parse_custom_attributes_eq [OF assms(1) ne, of w] all by simp
  then have eq: "parse_custom_attributes env w =
      (dict_update [] (map entry_kv (split (CHR '','') s)), w)"
    by (simp only: tw)
  have lookup: "\<forall>k. map_of (fst (parse_custom_attributes env w)) k
                  = last_value k (map entry_kv (split (CHR '','') s))"
    by (simp add: eq map_of_dict_update split: option.splits)
  have dist: "distinct (map fst (fst (parse_custom_attributes env w)))"
    by (simp add: eq distinct_dict_update)
  have cut: "\<forall>a \<in> set (split (CHR '','') s).
               fst (entry_kv a) @ ''='' @ snd (entry_kv a) = strip a
               \<and> CHR ''='' \<notin> set (fst (entry_kv a))"
    using assms(2) entry_kv_join by blast
  from eq lookup dist cut show ?thesis by simp
qed

theorem custom_attributes_first_eq_last_wins_witness:
  "list_all has_eq (split (CHR '','') ''k=a=b, t=1 ,k=c'')
   \<and> map_of (fst (parse_custom_attributes
                    (env_of [(''OTEL_CUSTOM_ATTRIBUTES'', ''k=a=b, t=1 ,k=c'')]) initial_world)) ''k''
       = Some ''c''
   \<and> entry_kv ''k=a=b'' = (''k'', ''a=b'')"
proof -
  let ?s = "''k=a=b, t=1 ,k=c''"
  let ?env = "env_of [(''OTEL_CUSTOM_ATTRIBUTES'', ?s)]"
  have h1: "getenv ?env ''OTEL_CUSTOM_ATTRIBUTES'' '''' = ?s" by code_simp
  have h2: "\<forall>a \<in> set (split (CHR '','') ?s). has_eq a" by code_simp
  have e: "last_value ''k'' (map entry_kv (split (CHR '','') ?s)) = Some ''c''" by code_simp
  have kv: "entry_kv ''k=a=b'' = (''k'', ''a=b'')" by code_simp
  from custom_attributes_first_eq_last_wins [OF h1 h2, of initial_world] e h2 kv
  show ?thesis by (simp add: list_all_iff)
qed

section \<open>A disabled configuration\<close>

text \<open>
  Claim C4. With the enabled flag false, \<open>setup_tracing\<close> returns \<open>None\<close> after logging
  one line: it makes no call on the OpenTelemetry packages, so no tracer provider, exporter,
  span processor or propagator is installed; and \<open>instrument_libraries\<close> returns at once,
  leaving the state as it was.
\<close>

theorem disabled_installs_nothing:
  assumes "\<not> otel_enabled self"
  shows "setup_tracing ext self w = (Inr None, logger INFO ''OpenTelemetry is disabled'' [] w)
         \<and> calls (snd (setup_tracing ext self w)) = calls w
         \<and> otel_config (snd (setup_tracing ext self w)) = otel_config w
         \<and> instrument_libraries ext self w = w"
  using assms by (simp add: setup_tracing_def instrument_libraries_def logger_def)

theorem disabled_installs_nothing_witness:
  "\<not> otel_enabled default_config
   \<and> setup_tracing sdk_no_kafka default_config initial_world
       = (Inr None, logger INFO ''OpenTelemetry is disabled'' [] initial_world)
   \<and> calls (snd (setup_tracing sdk_no_kafka default_config initial_world)) = []
   \<and> instrument_libraries sdk_no_kafka default_config initial_world = initial_world"
proof -
  have h: "\<not> otel_enabled default_config" by (simp add: default_config_def)
  have c: "calls initial_world = []" by (simp add: initial_world_def)
  from disabled_installs_nothing [OF h, of sdk_no_kafka initial_world] h c
  show ?thesis by (simp add: logger_def)
qed

section \<open>Instrumenting the libraries\<close>

lemma instrument_block_eq:
  "instrument_block ext flag l m1 m2 w =
     (if flag then
        w\<lparr>log := log w @ [case instrument_raises ext l of
                             None \<Rightarrow> Log INFO m1 []
                           | Some e \<Rightarrow> Log WARNING m2 [Arg_exc e]],
          calls := calls w @ [Instrument l]\<rparr>
      else w)"
  by (simp add: instrument_block_def logger_def call_def split: option.splits)

lemma instrument_block_flagged:
  "instrument_block ext (flagged self l) l
      (library_name l @ '' instrumentation enabled'')
      (''Failed to instrument '' @ library_name l @ '': %s'') w =
     w\<lparr>log := log w @ map (instrument_record ext) (filter (flagged self) [l]),
       calls := calls w @ map Instrument (filter (flagged self) [l])\<rparr>"
  by (simp add: instrument_block_eq instrument_record_def split: option.splits)

lemma flagged_simps:
  "instrument_flask self = flagged self Flask"
  "instrument_sqlalchemy self = flagged self SQLAlchemy"
  "instrument_kafka self = flagged self Kafka"
  "instrument_psycopg2 self = flagged self Psycopg2"
  by (simp_all add: flagged_def)

lemma instrument_libraries_eq:
  assumes "otel_enabled self"
  shows "instrument_libraries ext self w =
           w\<lparr>log := log w @ map (instrument_record ext)
                               (filter (flagged self) [Flask, SQLAlchemy, Kafka, Psycopg2]),
             calls := calls w @ map Instrument
                               (filter (flagged self) [Flask, SQLAlchemy, Kafka, Psycopg2])\<rparr>"
proof -
  have f: "instrument_block ext (flagged self Flask) Flask
             ''Flask instrumentation enabled'' ''Failed to instrument Flask: %s'' w =
           w\<lparr>log := log w @ map (instrument_record ext) (filter (flagged self) [Flask]),
             calls := calls w @ map Instrument (filter (flagged self) [Flask])\<rparr>" for w
    using instrument_block_flagged [of ext self Flask w] by (simp add: library_name_def)
  have s: "instrument_block ext (flagged self SQLAlchemy) SQLAlchemy
             ''SQLAlchemy instrumentation enabled'' ''Failed to instrument SQLAlchemy: %s'' w =
           w\<lparr>log := log w @ map (instrument_record ext) (filter (flagged self) [SQLAlchemy]),
             calls := calls w @ map Instrument (filter (flagged self) [SQLAlchemy])\<rparr>" for w
    using instrument_block_flagged [of ext self SQLAlchemy w] by (simp add: library_name_def)
  have k: "instrument_block ext (flagged self Kafka) Kafka
             ''Kafka instrumentation enabled'' ''Failed to instrument Kafka: %s'' w =
           w\<lparr>log := log w @ map (instrument_record ext) (filter (flagged self) [Kafka]),
             calls := calls w @ map Instrument (filter (flagged self) [Kafka])\<rparr>" for w
    using instrument_block_flagged [of ext self Kafka w] by (simp add: library_name_def)
  have p: "instrument_block ext (flagged self Psycopg2) Psycopg2
             ''Psycopg2 instrumentation enabled'' ''Failed to instrument Psycopg2: %s'' w =
           w\<lparr>log := log w @ map (instrument_record ext) (filter (flagged self) [Psycopg2]),
             calls := calls w @ map Instrument (filter (flagged self) [Psycopg2])\<rparr>" for w
    using instrument_block_flagged [of ext self Psycopg2 w] by (simp add: library_name_def)
  show ?thesis
    using assms by (simp add: instrument_libraries_def flagged_simps f s k p)
qed

text \<open>
  Claim C5. With the enabled flag true, \<open>instrument_libraries\<close> attempts the flagged
  libraries among Flask, SQLAlchemy, Kafka and Psycopg2, each once and in this order,
  whatever any of them raises; every attempt leaves one log record, a warning with the
  library's name and the exception when the attempt raised.
\<close>

theorem instrument_libraries_isolates_failures:
  assumes "otel_enabled self"
  shows "calls (instrument_libraries ext self w) =
           calls w @ map Instrument (filter (flagged self) [Flask, SQLAlchemy, Kafka, Psycopg2])
         \<and> log (instrument_libraries ext self w) =
           log w @ map (instrument_record ext)
                       (filter (flagged self) [Flask, SQLAlchemy, Kafka, Psycopg2])
         \<and> otel_config (instrument_libraries ext self w) = otel_config w
         \<and> (\<forall>l e. flagged self l \<and> instrument_raises ext l = Some e \<longrightarrow>
               Log WARNING (''Failed to instrument '' @ library_name l @ '': %s'') [Arg_exc e]
                 \<in> set (log (instrument_libraries ext self w)))"
proof -
  have mem: "l \<in> set (filter (flagged self) [Flask, SQLAlchemy, Kafka, Psycopg2])"
    if "flagged self l" for l
    using that by (cases l) simp_all
  have warn: "Log WARNING (''Failed to instrument '' @ library_name l @ '': %s'') [Arg_exc e]
                \<in> set (log (instrument_libraries ext self w))"
    if "flagged self l" and "instrument_raises ext l = Some e" for l e
  proof -
    have "instrument_record ext l
            \<in> instrument_record ext ` set (filter (flagged self) [Flask, SQLAlchemy, Kafka, Psycopg2])"
      using mem [OF that(1)] by (rule imageI)
    moreover have "instrument_record ext l =
        Log WARNING (''Failed to instrument '' @ library_name l @ '': %s'') [Arg_exc e]"
      using that(2) by (simp add: instrument_record_def)
    ultimately show ?thesis
      by (simp only: instrument_libraries_eq [OF assms]) simp
  qed
  show ?thesis
    using warn by (simp add: instrument_libraries_eq [OF assms])
qed

theorem instrument_libraries_isolates_failures_witness:
  "otel_enabled enabled_config
   \<and> instrumented (calls (instrument_libraries sdk_no_kafka enabled_config initial_world))
       = [Flask, SQLAlchemy, Kafka, Psycopg2]
   \<and> log (instrument_libraries sdk_no_kafka enabled_config initial_world)
       = [Log INFO ''Flask instrumentation enabled'' [],
          Log INFO ''SQLAlchemy instrumentation enabled'' [],
          Log WARNING ''Failed to instrument Kafka: %s''
            [Arg_exc (LibraryError ''No module named kafka'')],
          Log INFO ''Psycopg2 instrumentation enabled'' []]"
proof -
  have h: "otel_enabled enabled_config" by (simp add: enabled_config_def)
  have fl: "filter (flagged enabled_config) [Flask, SQLAlchemy, Kafka, Psycopg2]
              = [Flask, SQLAlchemy, Kafka, Psycopg2]"
    by (simp add: flagged_def enabled_config_def default_config_def)
  have rec: "map (instrument_record sdk_no_kafka) [Flask, SQLAlchemy, Kafka, Psycopg2]
       = [Log INFO ''Flask instrumentation enabled'' [],
          Log INFO ''SQLAlchemy instrumentation enabled'' [],
          Log WARNING ''Failed to instrument Kafka: %s''
            [Arg_exc (LibraryError ''No module named kafka'')],
          Log INFO ''Psycopg2 instrumentation enabled'' []]"
    by (simp add: instrument_record_def sdk_no_kafka_def library_name_def)
  note t = instrument_libraries_isolates_failures [OF h, of sdk_no_kafka initial_world]
  from t have c: "calls (instrument_libraries sdk_no_kafka enabled_config initial_world) =
      calls initial_world @ map Instrument [Flask, SQLAlchemy, Kafka, Psycopg2]"
    unfolding fl by (rule conjunct1)
  from t have l: "log (instrument_libraries sdk_no_kafka enabled_config initial_world) =
      log initial_world @ map (instrument_record sdk_no_kafka) [Flask, SQLAlchemy, Kafka, Psycopg2]"
    unfolding fl by blast
  have c': "instrumented (calls (instrument_libraries sdk_no_kafka enabled_config initial_world))
       = [Flask, SQLAlchemy, Kafka, Psycopg2]"
    unfolding c by (simp add: initial_world_def)
  have l': "log (instrument_libraries sdk_no_kafka enabled_config initial_world)
       = [Log INFO ''Flask instrumentation enabled'' [],
          Log INFO ''SQLAlchemy instrumentation enabled'' [],
          Log WARNING ''Failed to instrument Kafka: %s''
            [Arg_exc (LibraryError ''No module named kafka'')],
          Log INFO ''Psycopg2 instrumentation enabled'' []]"
    unfolding l rec by (simp add: initial_world_def)
  from h c' l' show ?thesis by blast
qed

section \<open>Constructing the configuration\<close>

lemma py_float_Inl: "py_float s = Inl e \<Longrightarrow> e = ValueError (Invalid_float_literal s)"
  by (auto simp: py_float_def split: option.splits prod.splits if_splits)

lemma OpenTelemetryConfig_init_Inl:
  "py_float (getenv env ''OTEL_TRACE_SAMPLE_RATE'' ''0.1'') = Inl e \<Longrightarrow>
   OpenTelemetryConfig_init env w = (Inl e, w)"
  by (simp add: OpenTelemetryConfig_init_def)

lemma OpenTelemetryConfig_init_cases:
  "(\<exists>e. OpenTelemetryConfig_init env w = (Inl e, w))
   \<or> (\<exists>c w'. OpenTelemetryConfig_init env w = (Inr c, w') \<and> otel_config w' = otel_config w)"
  by (cases "py_float (getenv env ''OTEL_TRACE_SAMPLE_RATE'' ''0.1'')")
     (auto simp: OpenTelemetryConfig_init_def parse_custom_attributes_def logger_def Let_def
           split: prod.splits option.splits)

text \<open>
  Claim C6. When the sample-rate variable is set and \<open>float\<close> does not accept its text,
  constructing the configuration raises the \<open>ValueError\<close> of that call, before anything
  is logged or stored; so do \<open>get_otel_config\<close> and \<open>setup_opentelemetry\<close> when no
  configuration is stored yet.
\<close>

theorem unparseable_sample_rate_raises_at_construction:
  assumes "env ''OTEL_TRACE_SAMPLE_RATE'' = Some s"
    and "\<forall>f. py_float s \<noteq> Inr f"
  shows "OpenTelemetryConfig_init env w = (Inl (ValueError (Invalid_float_literal s)), w)
         \<and> (otel_config w = None \<longrightarrow>
              get_otel_config env w = (Inl (ValueError (Invalid_float_literal s)), w)
              \<and> setup_opentelemetry ext env w = (Inl (ValueError (Invalid_float_literal s)), w))"
proof -
  obtain e where e: "py_float s = Inl e"
    using assms(2) by (cases "py_float s") auto
  then have "py_float s = Inl (ValueError (Invalid_float_literal s))"
    using py_float_Inl by blast
  moreover have "getenv env ''OTEL_TRACE_SAMPLE_RATE'' ''0.1'' = s"
    using assms(1) by (simp add: getenv_def)
  ultimately have init:
    "OpenTelemetryConfig_init env w = (Inl (ValueError (Invalid_float_literal s)), w)"
    by (simp add: OpenTelemetryConfig_init_Inl)
  then show ?thesis
    by (simp add: get_otel_config_def setup_opentelemetry_def)
qed

theorem unparseable_sample_rate_raises_at_construction_witness:
  "env_of [(''OTEL_TRACE_SAMPLE_RATE'', ''ten percent'')] ''OTEL_TRACE_SAMPLE_RATE''
     = Some ''ten percent''
   \<and> py_float ''ten percent'' = Inl (ValueError (Invalid_float_literal ''ten percent''))
   \<and> OpenTelemetryConfig_init (env_of [(''OTEL_TRACE_SAMPLE_RATE'', ''ten percent'')]) initial_world
       = (Inl (ValueError (Invalid_float_literal ''ten percent'')), initial_world)
   \<and> setup_opentelemetry sdk_ok (env_of [(''OTEL_TRACE_SAMPLE_RATE'', ''ten percent'')]) initial_world
       = (Inl (ValueError (Invalid_float_literal ''ten percent'')), initial_world)"
proof -
  let ?env = "env_of [(''OTEL_TRACE_SAMPLE_RATE'', ''ten percent'')]"
  have h1: "?env ''OTEL_TRACE_SAMPLE_RATE'' = Some ''ten percent''" by code_simp
  have p: "py_float ''ten percent'' = Inl (ValueError (Invalid_float_literal ''ten percent''))"
    by code_simp
  then have h2: "\<forall>f. py_float ''ten percent'' \<noteq> Inr f" by simp
  have n: "otel_config initial_world = None" by (simp add: initial_world_def)
  from unparseable_sample_rate_raises_at_construction
         [where env = ?env and s = "''ten percent''" and w = initial_world and ext = sdk_ok,
          OF h1 h2] h1 p n
  show ?thesis by simp
qed

section \<open>The global configuration\<close>

lemma get_otel_config_stored:
  "otel_config w = Some c \<Longrightarrow> get_otel_config env w = (Inr c, w)"
  by (simp add: get_otel_config_def)

lemma get_otel_config_seq_stored:
  "otel_config w = Some c \<Longrightarrow>
   get_otel_config_seq envs w = (replicate (length envs) (Inr c), w)"
  by (induction envs) (simp_all add: get_otel_config_stored)

text \<open>
  Claim C10, as the code has it. A call of \<open>get_otel_config\<close> that returns a
  configuration leaves it stored, and every later call, under any environment, returns
  that same configuration and changes nothing. A call whose construction raises stores
  nothing and leaves the state as it was. With nothing stored, the result is that of the
  constructor on the current environment.
\<close>

theorem get_otel_config_singleton:
  assumes "get_otel_config env w = (r, w')"
  shows "(\<forall>c. r = Inr c \<longrightarrow>
            otel_config w' = Some c
            \<and> (\<forall>envs. get_otel_config_seq envs w' = (replicate (length envs) (Inr c), w')))
         \<and> (\<forall>e. r = Inl e \<longrightarrow> w' = w \<and> otel_config w' = None)
         \<and> (otel_config w = None \<longrightarrow> r = fst (OpenTelemetryConfig_init env w))"
proof -
  have stored: "otel_config w' = Some c" if "r = Inr c" for c
  proof (cases "otel_config w")
    case None
    with assms that show ?thesis
      by (auto simp: get_otel_config_def split: prod.splits sum.splits)
  next
    case (Some c')
    with assms that show ?thesis
      by (simp add: get_otel_config_def)
  qed
  have failed: "w' = w \<and> otel_config w' = None" if "r = Inl e" for e
  proof (cases "otel_config w")
    case None
    from OpenTelemetryConfig_init_cases [of env w] assms that None show ?thesis
      by (auto simp: get_otel_config_def split: prod.splits sum.splits)
  next
    case (Some c')
    with assms that show ?thesis
      by (simp add: get_otel_config_def)
  qed
  have first: "r = fst (OpenTelemetryConfig_init env w)" if "otel_config w = None"
    using assms that
    by (auto simp: get_otel_config_def split: prod.splits sum.splits)
  from stored failed first get_otel_config_seq_stored show ?thesis
    by blast
qed

theorem get_otel_config_singleton_witness:
  "get_otel_config (env_of []) initial_world
     = (Inr default_config, initial_world\<lparr>otel_config := Some default_config\<rparr>)
   \<and> get_otel_config_seq
       [env_of [(''OTEL_ENABLED'', ''true'')], env_of [(''OTEL_SERVICE_NAME'', ''other'')]]
       (initial_world\<lparr>otel_config := Some default_config\<rparr>)
     = ([Inr default_config, Inr default_config],
        initial_world\<lparr>otel_config := Some default_config\<rparr>)"
proof -
  have h: "get_otel_config (env_of []) initial_world
     = (Inr default_config, initial_world\<lparr>otel_config := Some default_config\<rparr>)"
    by code_simp
  from get_otel_config_singleton [OF h] h show ?thesis
    by (simp add: numeral_2_eq_2)
qed

text \<open>
  After a first call that raised, the second call reads the environment again.
\<close>

theorem get_otel_config_rereads_after_failure_counterexample:
  "get_otel_config_seq
     [env_of [(''OTEL_TRACE_SAMPLE_RATE'', ''abc'')], env_of [(''OTEL_SERVICE_NAME'', ''other'')]]
     initial_world
   = ([Inl (ValueError (Invalid_float_literal ''abc'')),
       Inr (default_config\<lparr>service_name := ''other''\<rparr>)],
      initial_world\<lparr>otel_config := Some (default_config\<lparr>service_name := ''other''\<rparr>)\<rparr>)"
  by code_simp

section \<open>Constructing the exporters\<close>

lemma first_failure_Nil: "first_failure ext [] = None"
  by (simp add: first_failure_def)

lemma first_failure_Cons:
  "first_failure ext (r # rs) =
     (case request_raises ext r of Some e \<Rightarrow> Some e | None \<Rightarrow> first_failure ext rs)"
  by (simp add: first_failure_def split: option.splits)

lemma first_failure_append:
  "first_failure ext (rs @ rs') =
     (case first_failure ext rs of Some e \<Rightarrow> Some e | None \<Rightarrow> first_failure ext rs')"
  by (induction rs) (simp_all add: first_failure_Nil first_failure_Cons split: option.splits)

lemma up_to_failure_Nil: "up_to_failure ext [] = []"
  by (simp add: up_to_failure_def)

lemma up_to_failure_Cons:
  "up_to_failure ext (r # rs) =
     (case r of
        Inl e \<Rightarrow> []
      | Inr x \<Rightarrow> x # (if exporter_raises ext x = None then up_to_failure ext rs else []))"
  by (simp add: up_to_failure_def request_raises_def split: sum.splits)

lemma rights_append: "rights (rs @ rs') = rights rs @ rights rs'"
  by (induction rs rule: rights.induct) simp_all

lemma up_to_failure_all:
  "first_failure ext rs = None \<Longrightarrow> up_to_failure ext rs = rights rs"
  by (induction rs rule: rights.induct)
     (simp_all add: up_to_failure_Nil up_to_failure_Cons first_failure_Cons request_raises_def
               split: option.splits)

lemma up_to_failure_append:
  "up_to_failure ext (rs @ rs') =
     (if first_failure ext rs = None then rights rs @ up_to_failure ext rs'
      else up_to_failure ext rs)"
  by (induction rs rule: rights.induct)
     (simp_all add: up_to_failure_Nil up_to_failure_Cons first_failure_Nil first_failure_Cons
                    request_raises_def split: option.splits)

lemma index_split_colon:
  "CHR '':'' \<in> set endpoint \<Longrightarrow> \<exists>p. index (split (CHR '':'') endpoint) 1 = Inr p"
proof (induction endpoint)
  case Nil
  then show ?case by simp
next
  case (Cons c cs)
  show ?case
  proof (cases "c = CHR '':''")
    case True
    then show ?thesis
      using split_nonempty [of "CHR '':''" cs]
      by (cases "split (CHR '':'') cs") (simp_all add: index_def)
  next
    case False
    with Cons obtain p where "index (split (CHR '':'') cs) 1 = Inr p" by auto
    with False show ?thesis
      by (cases "split (CHR '':'') cs") (auto simp: index_def split: if_splits)
  qed
qed

lemma configure_jaeger_eq:
  "configure_jaeger ext self xs w =
     (case first_failure ext (jaeger_requests self) of
        Some e \<Rightarrow> (Inl e, w\<lparr>calls := calls w @ map Construct_exporter
                                              (up_to_failure ext (jaeger_requests self))\<rparr>)
      | None \<Rightarrow>
          (Inr (xs @ rights (jaeger_requests self)),
           w\<lparr>calls := calls w @ map Construct_exporter (rights (jaeger_requests self)),
             log := log w @ (case jaeger_endpoint self of
                               None \<Rightarrow> []
                             | Some endpoint \<Rightarrow>
                                 if endpoint = [] then []
                                 else [Log INFO ''Configured Jaeger exporter: %s''
                                         [Arg_str endpoint]])\<rparr>))"
  by (auto simp: configure_jaeger_def jaeger_requests_def jaeger_request_def construct_def
                 call_def logger_def first_failure_Nil first_failure_Cons up_to_failure_Nil
                 up_to_failure_Cons request_raises_def
           split: option.splits sum.splits)

lemma configure_otlp_eq:
  "configure_otlp ext self xs w =
     (case first_failure ext (otlp_requests self) of
        Some e \<Rightarrow> (Inl e, w\<lparr>calls := calls w @ map Construct_exporter
                                              (up_to_failure ext (otlp_requests self))\<rparr>)
      | None \<Rightarrow>
          (Inr (xs @ rights (otlp_requests self)),
           w\<lparr>calls := calls w @ map Construct_exporter (rights (otlp_requests self)),
             log := log w @ (case otlp_endpoint self of
                               None \<Rightarrow> []
                             | Some endpoint \<Rightarrow>
                                 if endpoint = [] then []
                                 else [Log INFO ''Configured OTLP exporter: %s''
                                         [Arg_str endpoint]])\<rparr>))"
  by (auto simp: configure_otlp_def otlp_requests_def construct_def
                 call_def logger_def first_failure_Nil first_failure_Cons up_to_failure_Nil
                 up_to_failure_Cons request_raises_def
           split: option.splits sum.splits)

lemma configure_console_eq:
  "configure_console ext self xs w =
     (case first_failure ext (console_requests self) of
        Some e \<Rightarrow> (Inl e, w\<lparr>calls := calls w @ map Construct_exporter
                                              (up_to_failure ext (console_requests self))\<rparr>)
      | None \<Rightarrow>
          (Inr (xs @ rights (console_requests self)),
           w\<lparr>calls := calls w @ map Construct_exporter (rights (console_requests self)),
             log := log w @ (if console_exporter self
                             then [Log INFO ''Configured console exporter'' []] else [])\<rparr>))"
  by (auto simp: configure_console_def console_requests_def construct_def
                 call_def logger_def first_failure_Nil first_failure_Cons up_to_failure_Nil
                 up_to_failure_Cons request_raises_def
           split: option.splits sum.splits)


lemma configure_exporters_fst:
  "fst (configure_exporters ext self w) =
     (case first_failure ext (exporter_requests self) of
        Some e \<Rightarrow> Inl e
      | None \<Rightarrow> Inr (rights (exporter_requests self)))"
  by (simp add: configure_exporters_def exporter_requests_def configure_jaeger_eq
                configure_otlp_eq configure_console_eq first_failure_append rights_append
           split: option.splits)

lemma configure_exporters_calls:
  "calls (snd (configure_exporters ext self w)) =
     calls w @ map Construct_exporter (up_to_failure ext (exporter_requests self))"
  by (simp add: configure_exporters_def exporter_requests_def configure_jaeger_eq
                configure_otlp_eq configure_console_eq first_failure_append rights_append
                up_to_failure_append up_to_failure_all
           split: option.splits)

lemma configure_exporters_otel_config:
  "otel_config (snd (configure_exporters ext self w)) = otel_config w"
  by (simp add: configure_exporters_def configure_jaeger_eq
                configure_otlp_eq configure_console_eq
           split: option.splits)

lemma add_span_processors_calls:
  "calls (add_span_processors xs w) =
     calls w @ map (\<lambda>x. Add_span_processor (BatchSpanProcessor x)) xs"
  by (induction xs arbitrary: w) (simp_all add: call_def)

lemma add_span_processors_otel_config:
  "otel_config (add_span_processors xs w) = otel_config w"
  by (induction xs arbitrary: w) (simp_all add: call_def)

lemma setup_tracing_fst:
  assumes "otel_enabled self"
  shows "fst (setup_tracing ext self w) =
           (case first_failure ext (exporter_requests self) of
              Some e \<Rightarrow> Inl e
            | None \<Rightarrow> Inr (Some (Tracer this_module)))"
proof (cases "configure_exporters ext self
                (call (Set_tracer_provider (TracerProvider (Resource (resource_attributes self)))) w)")
  case (Pair r w2)
  with configure_exporters_fst
         [of ext self "call (Set_tracer_provider (TracerProvider (Resource (resource_attributes self)))) w"]
       assms
  show ?thesis
    by (cases r) (auto simp: setup_tracing_def Let_def split: option.splits)
qed

lemma setup_tracing_calls:
  assumes "otel_enabled self"
  shows "calls (snd (setup_tracing ext self w)) =
           calls w
           @ Set_tracer_provider (TracerProvider (Resource (resource_attributes self)))
             # map Construct_exporter (up_to_failure ext (exporter_requests self))
           @ (case first_failure ext (exporter_requests self) of
                Some e \<Rightarrow> []
              | None \<Rightarrow>
                  map (\<lambda>x. Add_span_processor (BatchSpanProcessor x))
                      (rights (exporter_requests self))
                  @ [Set_global_textmap
                       (CompositeHTTPPropagator
                          [TraceContextPropagator, B3MultiFormat, JaegerPropagator]),
                     Get_tracer this_module])"
proof (cases "configure_exporters ext self
                (call (Set_tracer_provider (TracerProvider (Resource (resource_attributes self)))) w)")
  case (Pair r w2)
  let ?w1 = "call (Set_tracer_provider (TracerProvider (Resource (resource_attributes self)))) w"
  have f: "r = (case first_failure ext (exporter_requests self) of
                  Some e \<Rightarrow> Inl e
                | None \<Rightarrow> Inr (rights (exporter_requests self)))"
    using configure_exporters_fst [of ext self ?w1] Pair by simp
  have c: "calls w2 = calls w
             @ Set_tracer_provider (TracerProvider (Resource (resource_attributes self)))
               # map Construct_exporter (up_to_failure ext (exporter_requests self))"
    using configure_exporters_calls [of ext self ?w1] Pair by (simp add: call_def)
  show ?thesis
  proof (cases "first_failure ext (exporter_requests self)")
    case None
    with f have "r = Inr (rights (exporter_requests self))" by simp
    with assms Pair c None show ?thesis
      by (simp add: setup_tracing_def Let_def add_span_processors_calls call_def logger_def)
  next
    case (Some e)
    with f have "r = Inl e" by simp
    with assms Pair c Some show ?thesis
      by (simp add: setup_tracing_def Let_def)
  qed
qed

lemma setup_tracing_otel_config:
  "otel_config (snd (setup_tracing ext self w)) = otel_config w"
proof (cases "configure_exporters ext self
                (call (Set_tracer_provider (TracerProvider (Resource (resource_attributes self)))) w)")
  case (Pair r w2)
  with configure_exporters_otel_config
         [of ext self "call (Set_tracer_provider (TracerProvider (Resource (resource_attributes self)))) w"]
  show ?thesis
    by (cases r)
       (simp_all add: setup_tracing_def Let_def add_span_processors_otel_config call_def logger_def)
qed

section \<open>What a call trace installs\<close>

lemma provider_resources_append:
  "provider_resources (cs @ cs') = provider_resources cs @ provider_resources cs'"
  by (induction cs rule: provider_resources.induct) simp_all

lemma attached_exporters_append:
  "attached_exporters (cs @ cs') = attached_exporters cs @ attached_exporters cs'"
  by (induction cs rule: attached_exporters.induct) simp_all

lemma constructed_exporters_append:
  "constructed_exporters (cs @ cs') = constructed_exporters cs @ constructed_exporters cs'"
  by (induction cs rule: constructed_exporters.induct) simp_all

lemma installed_propagators_append:
  "installed_propagators (cs @ cs') = installed_propagators cs @ installed_propagators cs'"
  by (induction cs rule: installed_propagators.induct) simp_all

lemma projections_Construct:
  "provider_resources (map Construct_exporter xs) = []"
  "attached_exporters (map Construct_exporter xs) = []"
  "constructed_exporters (map Construct_exporter xs) = xs"
  "installed_propagators (map Construct_exporter xs) = []"
  by (induction xs) simp_all

lemma projections_Add:
  "provider_resources (map (\<lambda>x. Add_span_processor (BatchSpanProcessor x)) xs) = []"
  "attached_exporters (map (\<lambda>x. Add_span_processor (BatchSpanProcessor x)) xs) = xs"
  "constructed_exporters (map (\<lambda>x. Add_span_processor (BatchSpanProcessor x)) xs) = []"
  "installed_propagators (map (\<lambda>x. Add_span_processor (BatchSpanProcessor x)) xs) = []"
  by (induction xs) simp_all

lemmas projections =
  provider_resources_append attached_exporters_append constructed_exporters_append
  installed_propagators_append projections_Construct projections_Add

section \<open>The resource descriptor\<close>

lemma last_value_append:
  "last_value k (kvs @ kvs') =
     (case last_value k kvs' of Some v \<Rightarrow> Some v | None \<Rightarrow> last_value k kvs)"
  by (induction kvs) (simp_all add: last_value_Nil last_value_Cons split: option.splits)

lemma last_value_None: "k \<notin> fst ` set kvs \<Longrightarrow> last_value k kvs = None"
  by (induction kvs) (auto simp: last_value_Nil last_value_Cons)

lemma last_value_distinct:
  "distinct (map fst kvs) \<Longrightarrow> (k, v) \<in> set kvs \<Longrightarrow> last_value k kvs = Some v"
proof (induction kvs)
  case Nil
  then show ?case by simp
next
  case (Cons p kvs)
  show ?case
  proof (cases "(k, v) \<in> set kvs")
    case True
    with Cons show ?thesis by (simp add: last_value_Cons)
  next
    case False
    with Cons.prems have p: "p = (k, v)" by simp
    with Cons.prems have "fst p \<notin> set (map fst kvs)" by simp
    with p have "k \<notin> fst ` set kvs" by simp
    with p show ?thesis by (simp add: last_value_Cons last_value_None)
  qed
qed

lemma last_value_fixed_fields: "last_value k (fixed_fields self) = map_of (fixed_fields self) k"
  by (simp add: fixed_fields_def last_value_Cons last_value_Nil)

lemma map_of_resource_attributes:
  "map_of (resource_attributes self) k =
     (case last_value k (custom_attributes self) of
        Some v \<Rightarrow> Some v
      | None \<Rightarrow> map_of (fixed_fields self) k)"
proof -
  have "resource_attributes self = dict_update [] (fixed_fields self @ custom_attributes self)"
    by (simp add: resource_attributes_def fixed_fields_def)
  then show ?thesis
    by (simp add: map_of_dict_update last_value_append last_value_fixed_fields
             split: option.splits)
qed

text \<open>
  Claim C2, as the code has it. With the enabled flag true, \<open>setup_tracing\<close> installs one
  tracer provider, whose resource gives every key of the custom attributes the custom
  attribute's value, also when the key is \<open>service.name\<close>, \<open>service.version\<close> or
  \<open>deployment.environment\<close>; a fixed field keeps its configured value only when no custom
  attribute has its key.
\<close>

theorem resource_custom_attributes_override:
  assumes "otel_enabled self"
    and "distinct (map fst (custom_attributes self))"
  shows "provider_resources (calls (snd (setup_tracing ext self w)))
           = provider_resources (calls w) @ [resource_attributes self]
         \<and> (\<forall>(k, v) \<in> set (custom_attributes self). map_of (resource_attributes self) k = Some v)
         \<and> (\<forall>k. k \<notin> fst ` set (custom_attributes self) \<longrightarrow>
                map_of (resource_attributes self) k = map_of (fixed_fields self) k)"
proof -
  have res: "provider_resources (calls (snd (setup_tracing ext self w)))
           = provider_resources (calls w) @ [resource_attributes self]"
    by (simp add: setup_tracing_calls [OF assms(1)] projections split: option.splits)
  have custom: "map_of (resource_attributes self) k = Some v"
    if "(k, v) \<in> set (custom_attributes self)" for k v
    using last_value_distinct [OF assms(2) that] by (simp add: map_of_resource_attributes)
  have fixed: "map_of (resource_attributes self) k = map_of (fixed_fields self) k"
    if "k \<notin> fst ` set (custom_attributes self)" for k
    using last_value_None [OF that] by (simp add: map_of_resource_attributes)
  from res custom fixed show ?thesis by blast
qed

theorem resource_custom_attributes_override_witness:
  "otel_enabled (enabled_config\<lparr>custom_attributes := [(''team'', ''inventory''), (''service.version'', ''9'')]\<rparr>)
   \<and> distinct (map fst [(''team'', ''inventory''), (''service.version'', ''9'')])
   \<and> provider_resources (calls (snd (setup_tracing sdk_ok
        (enabled_config\<lparr>custom_attributes := [(''team'', ''inventory''), (''service.version'', ''9'')]\<rparr>)
        initial_world)))
      = [[(''service.name'', ''insights-host-inventory''), (''service.version'', ''9''),
          (''deployment.environment'', ''development''), (''team'', ''inventory'')]]"
proof -
  let ?c = "enabled_config\<lparr>custom_attributes := [(''team'', ''inventory''), (''service.version'', ''9'')]\<rparr>"
  have h1: "otel_enabled ?c" by (simp add: enabled_config_def)
  have h2: "distinct (map fst (custom_attributes ?c))" by simp
  have r: "resource_attributes ?c =
             [(''service.name'', ''insights-host-inventory''), (''service.version'', ''9''),
              (''deployment.environment'', ''development''), (''team'', ''inventory'')]"
    by code_simp
  have c: "provider_resources (calls initial_world) = []" by (simp add: initial_world_def)
  from resource_custom_attributes_override [OF h1 h2, of sdk_ok initial_world]
  have "provider_resources (calls (snd (setup_tracing sdk_ok ?c initial_world)))
           = provider_resources (calls initial_world) @ [resource_attributes ?c]"
    by (rule conjunct1)
  then have "provider_resources (calls (snd (setup_tracing sdk_ok ?c initial_world)))
           = [[(''service.name'', ''insights-host-inventory''), (''service.version'', ''9''),
              (''deployment.environment'', ''development''), (''team'', ''inventory'')]]"
    unfolding r c by simp
  with h1 show ?thesis by simp
qed

text \<open>
  A custom attribute \<open>service.name\<close> replaces the configured service name in the resource.
\<close>

theorem resource_fixed_field_overridden_counterexample:
  "map_of (custom_attributes (enabled_config\<lparr>custom_attributes := [(''service.name'', ''spoofed'')]\<rparr>))
       ''service.name'' = Some ''spoofed''
   \<and> service_name (enabled_config\<lparr>custom_attributes := [(''service.name'', ''spoofed'')]\<rparr>)
       = ''insights-host-inventory''
   \<and> provider_resources (calls (snd (setup_tracing sdk_ok
        (enabled_config\<lparr>custom_attributes := [(''service.name'', ''spoofed'')]\<rparr>) initial_world)))
      = [[(''service.name'', ''spoofed''), (''service.version'', ''1.0.0''),
          (''deployment.environment'', ''development'')]]"
  by code_simp

section \<open>Exporters and propagators\<close>

text \<open>
  Claim C3, as the code has it. With the enabled flag true, when constructing one of the
  configured exporters raises (its arguments or its constructor), \<open>setup_tracing\<close> raises
  that exception: after installing the tracer provider it has called the constructors of
  the exporters up to and including the failing one and no other, it attaches no exporter,
  not even one constructed before the failure, and it installs no propagator.
\<close>

theorem exporter_failure_aborts_setup:
  assumes "otel_enabled self"
    and "first_failure ext (exporter_requests self) = Some e"
  shows "fst (setup_tracing ext self w) = Inl e
         \<and> calls (snd (setup_tracing ext self w))
             = calls w
               @ Set_tracer_provider (TracerProvider (Resource (resource_attributes self)))
                 # map Construct_exporter (up_to_failure ext (exporter_requests self))
         \<and> constructed_exporters (calls (snd (setup_tracing ext self w)))
             = constructed_exporters (calls w) @ up_to_failure ext (exporter_requests self)
         \<and> attached_exporters (calls (snd (setup_tracing ext self w)))
             = attached_exporters (calls w)
         \<and> installed_propagators (calls (snd (setup_tracing ext self w)))
             = installed_propagators (calls w)"
  using assms(2)
  by (simp add: setup_tracing_fst [OF assms(1)] setup_tracing_calls [OF assms(1)] projections)

theorem exporter_failure_aborts_setup_witness:
  "otel_enabled (enabled_config\<lparr>jaeger_endpoint := Some ''collector:6831'',
                                 otlp_endpoint := Some ''http://otel:4317'',
                                 console_exporter := True\<rparr>)
   \<and> first_failure sdk_no_otlp
        (exporter_requests (enabled_config\<lparr>jaeger_endpoint := Some ''collector:6831'',
                                            otlp_endpoint := Some ''http://otel:4317'',
                                            console_exporter := True\<rparr>))
       = Some (LibraryError ''bad endpoint'')
   \<and> fst (setup_tracing sdk_no_otlp
             (enabled_config\<lparr>jaeger_endpoint := Some ''collector:6831'',
                              otlp_endpoint := Some ''http://otel:4317'',
                              console_exporter := True\<rparr>) initial_world)
       = Inl (LibraryError ''bad endpoint'')
   \<and> constructed_exporters (calls (snd (setup_tracing sdk_no_otlp
             (enabled_config\<lparr>jaeger_endpoint := Some ''collector:6831'',
                              otlp_endpoint := Some ''http://otel:4317'',
                              console_exporter := True\<rparr>) initial_world)))
       = [JaegerExporter ''collector'' 6831, OTLPSpanExporter ''http://otel:4317'']
   \<and> attached_exporters (calls (snd (setup_tracing sdk_no_otlp
             (enabled_config\<lparr>jaeger_endpoint := Some ''collector:6831'',
                              otlp_endpoint := Some ''http://otel:4317'',
                              console_exporter := True\<rparr>) initial_world)))
       = []"
proof -
  let ?c = "enabled_config\<lparr>jaeger_endpoint := Some ''collector:6831'',
                            otlp_endpoint := Some ''http://otel:4317'',
                            console_exporter := True\<rparr>"
  have h1: "otel_enabled ?c" by (simp add: enabled_config_def)
  have h2: "first_failure sdk_no_otlp (exporter_requests ?c) = Some (LibraryError ''bad endpoint'')"
    by code_simp
  have u: "up_to_failure sdk_no_otlp (exporter_requests ?c)
             = [JaegerExporter ''collector'' 6831, OTLPSpanExporter ''http://otel:4317'']"
    by code_simp
  have c: "calls initial_world = []" by (simp add: initial_world_def)
  note t = exporter_failure_aborts_setup [OF h1 h2, of initial_world]
  from t have a: "fst (setup_tracing sdk_no_otlp ?c initial_world) = Inl (LibraryError ''bad endpoint'')"
    by blast
  from t have b: "constructed_exporters (calls (snd (setup_tracing sdk_no_otlp ?c initial_world)))
             = constructed_exporters (calls initial_world) @ up_to_failure sdk_no_otlp (exporter_requests ?c)"
    by blast
  from t have d: "attached_exporters (calls (snd (setup_tracing sdk_no_otlp ?c initial_world)))
             = attached_exporters (calls initial_world)"
    by blast
  have b': "constructed_exporters (calls (snd (setup_tracing sdk_no_otlp ?c initial_world)))
             = [JaegerExporter ''collector'' 6831, OTLPSpanExporter ''http://otel:4317'']"
    unfolding b u c by simp
  have d': "attached_exporters (calls (snd (setup_tracing sdk_no_otlp ?c initial_world))) = []"
    unfolding d c by simp
  from h1 h2 a b' d' show ?thesis by blast
qed

text \<open>
  With the Jaeger endpoint \<open>bad:not-a-port\<close> and the console exporter enabled,
  \<open>setup_tracing\<close> raises the \<open>ValueError\<close> of \<open>int\<close>; the console exporter is neither
  constructed nor attached.
\<close>

theorem bad_jaeger_port_blocks_console_counterexample:
  "otel_enabled (enabled_config\<lparr>jaeger_endpoint := Some ''bad:not-a-port'',
                                 console_exporter := True\<rparr>)
   \<and> console_exporter (enabled_config\<lparr>jaeger_endpoint := Some ''bad:not-a-port'',
                                       console_exporter := True\<rparr>)
   \<and> fst (setup_tracing sdk_ok
             (enabled_config\<lparr>jaeger_endpoint := Some ''bad:not-a-port'',
                              console_exporter := True\<rparr>) initial_world)
       = Inl (ValueError (Invalid_int_literal ''not-a-port''))
   \<and> constructed_exporters (calls (snd (setup_tracing sdk_ok
             (enabled_config\<lparr>jaeger_endpoint := Some ''bad:not-a-port'',
                              console_exporter := True\<rparr>) initial_world))) = []
   \<and> attached_exporters (calls (snd (setup_tracing sdk_ok
             (enabled_config\<lparr>jaeger_endpoint := Some ''bad:not-a-port'',
                              console_exporter := True\<rparr>) initial_world))) = []"
  by code_simp

text \<open>
  Claim C7, as the code has it. With the enabled flag true, \<open>setup_tracing\<close> installs one
  composite propagator, with the formats W3C trace-context, B3 and Jaeger in this order,
  exactly when no exporter construction raises; it then returns a tracer and has attached
  every configured exporter. When a construction raises, it installs no propagator.
\<close>

theorem propagators_in_priority_order:
  assumes "otel_enabled self"
  shows "installed_propagators (calls (snd (setup_tracing ext self w)))
           = installed_propagators (calls w)
             @ (if first_failure ext (exporter_requests self) = None
                then [[TraceContextPropagator, B3MultiFormat, JaegerPropagator]] else [])
         \<and> (first_failure ext (exporter_requests self) = None \<longrightarrow>
              fst (setup_tracing ext self w) = Inr (Some (Tracer this_module))
              \<and> attached_exporters (calls (snd (setup_tracing ext self w)))
                  = attached_exporters (calls w) @ rights (exporter_requests self))"
  by (simp add: setup_tracing_fst [OF assms] setup_tracing_calls [OF assms] projections
           split: option.splits)

theorem propagators_in_priority_order_witness:
  "otel_enabled (enabled_config\<lparr>console_exporter := True\<rparr>)
   \<and> installed_propagators (calls (snd (setup_tracing sdk_ok
        (enabled_config\<lparr>console_exporter := True\<rparr>) initial_world)))
       = [[TraceContextPropagator, B3MultiFormat, JaegerPropagator]]
   \<and> attached_exporters (calls (snd (setup_tracing sdk_ok
        (enabled_config\<lparr>console_exporter := True\<rparr>) initial_world)))
       = [ConsoleSpanExporter]"
proof -
  let ?c = "enabled_config\<lparr>console_exporter := True\<rparr>"
  have h1: "otel_enabled ?c" by (simp add: enabled_config_def)
  have f: "first_failure sdk_ok (exporter_requests ?c) = None" by code_simp
  have r: "rights (exporter_requests ?c) = [ConsoleSpanExporter]" by code_simp
  have c: "calls initial_world = []" by (simp add: initial_world_def)
  note t = propagators_in_priority_order [OF h1, of sdk_ok initial_world]
  from t have a: "installed_propagators (calls (snd (setup_tracing sdk_ok ?c initial_world)))
           = installed_propagators (calls initial_world)
             @ (if first_failure sdk_ok (exporter_requests ?c) = None
                then [[TraceContextPropagator, B3MultiFormat, JaegerPropagator]] else [])"
    by (rule conjunct1)
  from t f have b: "attached_exporters (calls (snd (setup_tracing sdk_ok ?c initial_world)))
                  = attached_exporters (calls initial_world) @ rights (exporter_requests ?c)"
    by blast
  have a': "installed_propagators (calls (snd (setup_tracing sdk_ok ?c initial_world)))
       = [[TraceContextPropagator, B3MultiFormat, JaegerPropagator]]"
    unfolding a f c by simp
  have b': "attached_exporters (calls (snd (setup_tracing sdk_ok ?c initial_world)))
       = [ConsoleSpanExporter]"
    unfolding b r c by simp
  from h1 a' b' show ?thesis by blast
qed

text \<open>
  With the Jaeger endpoint \<open>collector:\<close> the port is empty, \<open>setup_tracing\<close> raises and
  no propagator is installed, although the configuration is enabled.
\<close>

theorem no_propagator_after_bad_port_counterexample:
  "otel_enabled (enabled_config\<lparr>jaeger_endpoint := Some ''collector:''\<rparr>)
   \<and> fst (setup_tracing sdk_ok (enabled_config\<lparr>jaeger_endpoint := Some ''collector:''\<rparr>)
            initial_world)
       = Inl (ValueError (Invalid_int_literal ''''))
   \<and> installed_propagators (calls (snd (setup_tracing sdk_ok
        (enabled_config\<lparr>jaeger_endpoint := Some ''collector:''\<rparr>) initial_world))) = []"
  by code_simp

end
